theory Spec2Isabelle
  imports Complex_Main
begin

unbundle bit_operations_syntax

section \<open>The device: SysEx dispatch (device/device.py)\<close>

subsection \<open>Constants\<close>

text \<open>
  MIDI bytes reach the callback as a Python list of ints, so a message is an \<open>int list\<close>.
\<close>

definition SYSEX_START :: int where "SYSEX_START = 0xF0"
definition SYSEX_END :: int where "SYSEX_END = 0xF7"
definition UNIVERSAL_NON_REALTIME_SYSEX :: int where "UNIVERSAL_NON_REALTIME_SYSEX = 0x7E"
definition GENERAL_INFORMATION :: int where "GENERAL_INFORMATION = 0x06"
definition IDENTITY_REQUEST :: int where "IDENTITY_REQUEST = 0x01"
definition IDENTITY_REPLY :: int where "IDENTITY_REPLY = 0x02"
definition MANUFACTURER_ID :: int where "MANUFACTURER_ID = 0x7D"
definition DEVICE_ID_SYSEX :: int where "DEVICE_ID_SYSEX = 0x01"
definition COMMAND_TRIGGER_ACTION :: int where "COMMAND_TRIGGER_ACTION = 0x03"
definition ACTION_ID_LOG :: int where "ACTION_ID_LOG = 0x01"

subsection \<open>Exceptions and the device's observable state\<close>

text \<open>
  \<open>IndexError\<close> is what Python raises on \<open>message_bytes[i]\<close> past the end.
  \<open>IOError\<close> stands for any exception that the clause \<open>except IOError\<close> of
  \<open>_handle_trigger_action\<close> catches, \<open>RtMidiError\<close> for a failure of the MIDI
  library that this clause does not catch.
\<close>

datatype exn = IndexError | IOError | RtMidiError

text \<open>
  The two collaborators of the device as far as \<open>on_midi_message\<close> touches them:
  \<^item> \<open>out_port_open\<close>: the answer of \<open>midi_out.is_port_open()\<close>;
  \<^item> \<open>send_fault\<close>: the exception \<open>midi_out.send_message\<close> raises, if any;
  \<^item> \<open>sent\<close>: the messages handed to \<open>midi_out.send_message\<close>, oldest first,
  whether or not the call then raises;
  \<^item> \<open>log_fault\<close>: whether opening or writing the log file raises an \<open>IOError\<close>;
  \<^item> \<open>log_file\<close>: the text of \<open>device_actions.log\<close>.
  Output of \<open>print\<close> is not part of the model; the indexing that the arguments of a
  \<open>print\<close> perform is.
\<close>

record device =
  out_port_open :: bool
  send_fault :: "exn option"
  sent :: "int list list"
  log_fault :: bool
  log_file :: string

type_synonym outcome = "(exn + unit) \<times> device"

subsection \<open>Python's text of an int and of a list of ints\<close>

definition digit_char :: "nat \<Rightarrow> char" where
  "digit_char d = ''0123456789'' ! d"

function digits :: "nat \<Rightarrow> string" where
  "digits n = (if n < 10 then [digit_char n] else digits (n div 10) @ [digit_char (n mod 10)])"
  by pat_completeness auto
termination
  by (relation "measure id") auto

declare digits.simps [simp del]

definition str_int :: "int \<Rightarrow> string" where
  "str_int i = (if i < 0 then CHR ''-'' # digits (nat (- i)) else digits (nat i))"

fun join_comma :: "string list \<Rightarrow> string" where
  "join_comma [] = []"
| "join_comma [s] = s"
| "join_comma (s # t # ss) = s @ '', '' @ join_comma (t # ss)"

definition repr_list :: "int list \<Rightarrow> string" where
  "repr_list xs = ''['' @ join_comma (map str_int xs) @ '']''"

subsection \<open>send_midi_message (lines 169-174)\<close>

definition send_midi_message :: "device \<Rightarrow> int list \<Rightarrow> outcome" where
  "send_midi_message d message =
     (if out_port_open d then
        (let d' = d\<lparr>sent := sent d @ [message]\<rparr>
         in case send_fault d of None \<Rightarrow> (Inr (), d') | Some e \<Rightarrow> (Inl e, d'))
      else (Inr (), d))"

subsection \<open>The handlers (lines 77-125)\<close>

definition identity_reply :: "int list" where
  "identity_reply =
     [SYSEX_START, UNIVERSAL_NON_REALTIME_SYSEX, 0x7F, GENERAL_INFORMATION, IDENTITY_REPLY,
      MANUFACTURER_ID, 0x01, 0x01, 0x01, 0x01, 0x01, 0x01, 0x01, 0x01, SYSEX_END]"

definition handle_identity_request :: "device \<Rightarrow> int list \<Rightarrow> outcome" where
  "handle_identity_request d message_bytes = send_midi_message d identity_reply"

definition log_content :: "int \<Rightarrow> int list \<Rightarrow> string" where
  "log_content action_id original_message =
     ''TriggerAction: ID='' @ str_int action_id @ '', FullMsg='' @ repr_list original_message
       @ [CHR 0x0A]"

text \<open>
  The reply is sent inside the \<open>try\<close> block, after the write: an \<open>IOError\<close> of the
  write skips it, and an \<open>IOError\<close> of the send is caught by the same clause.
\<close>

definition handle_trigger_action :: "device \<Rightarrow> int \<Rightarrow> int list \<Rightarrow> outcome" where
  "handle_trigger_action d action_id original_message =
     (if action_id = ACTION_ID_LOG then
        (if log_fault d then (Inr (), d)
         else
           (let d1 = d\<lparr>log_file := log_file d @ log_content action_id original_message\<rparr>
            in case send_midi_message d1 original_message of
                 (Inl IOError, d2) \<Rightarrow> (Inr (), d2)
               | r \<Rightarrow> r))
      else (Inr (), d))"

text \<open>
  The indices 1 to 4 are read only behind the length tests of the source, so they are
  in range where they are evaluated.
\<close>

definition handle_custom_sysex :: "device \<Rightarrow> int list \<Rightarrow> outcome" where
  "handle_custom_sysex d message_bytes =
     (if length message_bytes < 5 \<or> message_bytes ! 1 \<noteq> MANUFACTURER_ID
         \<or> message_bytes ! 2 \<noteq> DEVICE_ID_SYSEX
      then (Inr (), d)
      else
        (let command_id = message_bytes ! 3
         in if command_id = COMMAND_TRIGGER_ACTION then
              (if length message_bytes \<ge> 6 then
                 handle_trigger_action d (message_bytes ! 4) message_bytes
               else (Inr (), d))
            else (Inr (), d)))"

subsection \<open>on_midi_message (lines 127-167)\<close>

text \<open>
  The branch of the \<open>if\<close>/\<open>elif\<close> chain that a message selects. \<open>message_bytes[1]\<close>
  and \<open>message_bytes[2]\<close> of the second SysEx test are read without a length test, so
  the model gives them an \<open>IndexError\<close> branch.
\<close>

datatype branch =
  Empty | IdentityRequest | CustomSysex | UnrecognizedSysex
  | NoteOn | NoteOff | ControlChange | OtherChannel | SystemCommon | Unknown

definition select_branch :: "int list \<Rightarrow> exn + branch" where
  "select_branch message_bytes =
     (if message_bytes = [] then Inr Empty
      else
        (let status_byte = message_bytes ! 0 in
         if status_byte = SYSEX_START \<and> last message_bytes = SYSEX_END then
           (if length message_bytes = 6
               \<and> message_bytes ! 0 = SYSEX_START
               \<and> message_bytes ! 1 = UNIVERSAL_NON_REALTIME_SYSEX
               \<and> message_bytes ! 3 = GENERAL_INFORMATION
               \<and> message_bytes ! 4 = IDENTITY_REQUEST
               \<and> message_bytes ! 5 = SYSEX_END
            then Inr IdentityRequest
            else if length message_bytes < 2 then Inl IndexError
            else if message_bytes ! 1 = MANUFACTURER_ID then
              (if length message_bytes < 3 then Inl IndexError
               else if message_bytes ! 2 = DEVICE_ID_SYSEX then Inr CustomSysex
               else Inr UnrecognizedSysex)
            else Inr UnrecognizedSysex)
         else if status_byte \<ge> 0x80 \<and> status_byte \<le> 0xEF then
           (let message_type = status_byte AND 0xF0 in
            if message_type = 0x90 then Inr NoteOn
            else if message_type = 0x80 then Inr NoteOff
            else if message_type = 0xB0 then Inr ControlChange
            else Inr OtherChannel)
         else if status_byte \<ge> 0xF0 then Inr SystemCommon
         else Inr Unknown))"

text \<open>
  The \<open>print\<close> of the Note On, Note Off and Control Change branches formats
  \<open>message_bytes[1]\<close> and \<open>message_bytes[2]\<close>.
\<close>

definition print_data_bytes :: "int list \<Rightarrow> exn + unit" where
  "print_data_bytes message_bytes =
     (if length message_bytes < 2 then Inl IndexError
      else if length message_bytes < 3 then Inl IndexError
      else Inr ())"

definition on_midi_message :: "device \<Rightarrow> int list \<Rightarrow> outcome" where
  "on_midi_message d message_bytes =
     (case select_branch message_bytes of
        Inl e \<Rightarrow> (Inl e, d)
      | Inr IdentityRequest \<Rightarrow> handle_identity_request d message_bytes
      | Inr CustomSysex \<Rightarrow> handle_custom_sysex d message_bytes
      | Inr NoteOn \<Rightarrow> (print_data_bytes message_bytes, d)
      | Inr NoteOff \<Rightarrow> (print_data_bytes message_bytes, d)
      | Inr ControlChange \<Rightarrow> (print_data_bytes message_bytes, d)
      | Inr _ \<Rightarrow> (Inr (), d))"

section \<open>The client: handshake and inbox (client/client.py)\<close>

subsection \<open>The MIDI library as a collaborator\<close>

text \<open>
  \<open>rtmidi\<close> is not part of the repository. The model keeps what the client asks of its
  two port objects as a trace of calls, and takes the library's answers as parameters:
  \<^item> \<open>get_ports\<close>: the port names each object enumerates;
  \<open>midi_out.get_ports()\<close> lists the ports the client can send to (the device's
  inbound ports), \<open>midi_in.get_ports()\<close> the ports it can listen to;
  \<^item> \<open>open_raises\<close>: whether \<open>open_port(i)\<close> or \<open>open_virtual_port(name)\<close> raises
  \<open>RtMidiError\<close>, given the calls made before it;
  \<^item> \<open>is_port_open\<close>: the answer of \<open>is_port_open()\<close>, given the calls made before it.
  \<open>get_ports\<close>, \<open>close_port\<close>, \<open>set_callback\<close> and \<open>is_port_open\<close> return
  normally. An \<open>RtMidiError\<close> of \<open>open_virtual_port\<close> is caught and printed by
  \<open>_open_client_ports\<close> and changes nothing in what the client does next, so
  \<open>open_client_ports\<close> does not read \<open>open_raises\<close>: whether the virtual port is open
  afterwards is the library's answer, not the client's doing.
\<close>

datatype endpoint = MidiIn | MidiOut

datatype method_call =
  GetPorts | ClosePort | OpenPort nat | OpenVirtualPort string | SetCallback | IsPortOpen

record transport =
  get_ports :: "endpoint \<Rightarrow> string list"
  open_raises :: "(endpoint \<times> method_call) list \<Rightarrow> endpoint \<times> method_call \<Rightarrow> bool"
  is_port_open :: "(endpoint \<times> method_call) list \<Rightarrow> endpoint \<Rightarrow> bool"

record client =
  client_port_name :: string
  target_device_in_port_name :: "string option"
  target_device_out_port_name :: "string option"
  received_messages :: "int list list"
  calls :: "(endpoint \<times> method_call) list"

definition call :: "client \<Rightarrow> endpoint \<times> method_call \<Rightarrow> client" where
  "call c m = c\<lparr>calls := calls c @ [m]\<rparr>"

subsection \<open>Python's substring test on strings\<close>

fun starts_with :: "string \<Rightarrow> string \<Rightarrow> bool" where
  "starts_with [] s = True"
| "starts_with (a # as) [] = False"
| "starts_with (a # as) (b # bs) = (a = b \<and> starts_with as bs)"

text \<open>\<open>str_in sub s\<close> is Python's \<open>sub in s\<close>.\<close>

fun str_in :: "string \<Rightarrow> string \<Rightarrow> bool" where
  "str_in sub [] = (sub = [])"
| "str_in sub (ch # s) = (starts_with sub (ch # s) \<or> str_in sub s)"

subsection \<open>_open_client_ports (lines 33-52)\<close>

definition open_client_ports :: "transport \<Rightarrow> client \<Rightarrow> client" where
  "open_client_ports t c =
     (let c1 = call c (MidiIn, OpenVirtualPort (client_port_name c @ '' In''));
          c2 = call c1 (MidiOut, OpenVirtualPort (client_port_name c @ '' Out''));
          c3 = call c2 (MidiIn, IsPortOpen)
      in if is_port_open t (calls c2) MidiIn then call c3 (MidiIn, SetCallback) else c3)"

subsection \<open>connect_to_device (lines 62-105)\<close>

text \<open>
  The loop of lines 70-79 over \<open>enumerate(available_ports)\<close>: \<open>i\<close> is the index of the
  head of the remaining ports. A port whose \<open>open_port\<close> raises is skipped and the
  search goes on; the first one that opens ends the loop.
\<close>

fun connect_out :: "transport \<Rightarrow> string \<Rightarrow> nat \<Rightarrow> string list \<Rightarrow> client \<Rightarrow> bool \<times> client" where
  "connect_out t sub i [] c = (False, c)"
| "connect_out t sub i (port_name # rest) c =
     (if str_in sub port_name then
        (let c1 = call c (MidiOut, ClosePort);
             c2 = call c1 (MidiOut, OpenPort i)
         in if open_raises t (calls c1) (MidiOut, OpenPort i)
            then connect_out t sub (Suc i) rest c2
            else (True, c2))
      else connect_out t sub (Suc i) rest c)"

text \<open>The loop of lines 88-98; on success the callback is set again.\<close>

fun connect_in :: "transport \<Rightarrow> string \<Rightarrow> nat \<Rightarrow> string list \<Rightarrow> client \<Rightarrow> bool \<times> client" where
  "connect_in t sub i [] c = (False, c)"
| "connect_in t sub i (port_name # rest) c =
     (if str_in sub port_name then
        (let c1 = call c (MidiIn, ClosePort);
             c2 = call c1 (MidiIn, OpenPort i)
         in if open_raises t (calls c1) (MidiIn, OpenPort i)
            then connect_in t sub (Suc i) rest c2
            else (True, call c2 (MidiIn, SetCallback)))
      else connect_in t sub (Suc i) rest c)"

text \<open>Lines 66-79: the outbound leg, from the enumeration to the end of the loop.\<close>

definition outbound_leg :: "transport \<Rightarrow> string \<Rightarrow> client \<Rightarrow> bool \<times> client" where
  "outbound_leg t sub c = connect_out t sub 0 (get_ports t MidiOut) (call c (MidiOut, GetPorts))"

text \<open>Lines 84-98: the inbound leg.\<close>

definition inbound_leg :: "transport \<Rightarrow> string \<Rightarrow> client \<Rightarrow> bool \<times> client" where
  "inbound_leg t sub c = connect_in t sub 0 (get_ports t MidiIn) (call c (MidiIn, GetPorts))"

definition connect_to_device :: "transport \<Rightarrow> string \<Rightarrow> string \<Rightarrow> client \<Rightarrow> bool \<times> client" where
  "connect_to_device t device_in_port_name_substr device_out_port_name_substr c =
     (let c0 = c\<lparr>target_device_in_port_name := Some device_in_port_name_substr,
                  target_device_out_port_name := Some device_out_port_name_substr\<rparr>
      in case outbound_leg t device_in_port_name_substr c0 of
           (connected_out, c1) \<Rightarrow>
             if \<not> connected_out then (False, c1)
             else
               (case inbound_leg t device_out_port_name_substr c1 of
                  (connected_in, c2) \<Rightarrow>
                    if \<not> connected_in then (False, open_client_ports t c2)
                    else (connected_out \<and> connected_in, c2)))"

subsection \<open>pop_received_message (lines 114-120)\<close>

text \<open>
  \<open>time.time()\<close> reads the wall clock, which may be set back between two readings.
  \<open>clock k\<close> is the \<open>k\<close>-th reading of the call, in seconds: \<open>clock 0\<close> is
  \<open>start_time\<close>, \<open>clock 1\<close> the reading of the first test of the loop, and so on, one
  reading for each test. Seconds are real numbers here; the rounding of Python's floats
  is not modelled. The receive callback appends to the inbox from another thread:
  \<open>arrivals k\<close> are the frames it adds during the sleep that follows the \<open>k\<close>-th
  reading. A clock that stands still with a positive timeout and an inbox that stays
  empty never leaves the loop, so the result is an \<open>option\<close>: \<open>None\<close> is a call that
  does not return, \<open>Some (None, c)\<close> one that returns Python's \<open>None\<close>.
\<close>

partial_function (option) pop_loop ::
  "(nat \<Rightarrow> real) \<Rightarrow> (nat \<Rightarrow> int list list) \<Rightarrow> real \<Rightarrow> real \<Rightarrow> nat \<Rightarrow> client
     \<Rightarrow> (int list option \<times> client) option"
where
  "pop_loop clock arrivals start_time timeout_sec k c =
     (if clock k - start_time < timeout_sec then
        (case received_messages c of
           m # rest \<Rightarrow> Some (Some m, c\<lparr>received_messages := rest\<rparr>)
         | [] \<Rightarrow>
             pop_loop clock arrivals start_time timeout_sec (Suc k)
               (c\<lparr>received_messages := received_messages c @ arrivals k\<rparr>))
      else Some (None, c))"

definition pop_received_message ::
  "(nat \<Rightarrow> real) \<Rightarrow> (nat \<Rightarrow> int list list) \<Rightarrow> real \<Rightarrow> client
     \<Rightarrow> (int list option \<times> client) option"
where
  "pop_received_message clock arrivals timeout_sec c =
     pop_loop clock arrivals (clock 0) timeout_sec 1 c"

section \<open>Properties of the device\<close>

lemmas device_consts =
  SYSEX_START_def SYSEX_END_def UNIVERSAL_NON_REALTIME_SYSEX_def GENERAL_INFORMATION_def
  IDENTITY_REQUEST_def IDENTITY_REPLY_def MANUFACTURER_ID_def DEVICE_ID_SYSEX_def
  COMMAND_TRIGGER_ACTION_def ACTION_ID_LOG_def

lemma str_int_1: "str_int 1 = ''1''"
  by code_simp

lemma repr_trigger_frame:
  "repr_list [0xF0, 0x7D, 0x01, 0x03, 0x01, 0xF7] = ''[240, 125, 1, 3, 1, 247]''"
  by code_simp

lemma length_six_nth: "length b = 6 \<Longrightarrow> b = [b ! 0, b ! 1, b ! 2, b ! 3, b ! 4, b ! 5]"
  by (auto simp: list_eq_iff_nth_eq less_Suc_eq numeral_eq_Suc)

text \<open>
  C1, as the code has it. A message takes the Identity Request branch exactly when it is
  the six bytes \<open>F0 7E t 06 01 F7\<close> for some third byte \<open>t\<close>: the test of lines 140-145
  reads the indices 0, 1, 3, 4 and 5 and never index 2 (the comment above it writes the
  frame as \<open>F0 7E <device ID from message> 06 01 F7\<close>). Such a frame is handled as an
  Identity Request whatever \<open>t\<close> is: the Identity Reply is handed to the output port
  when that port is open, and nothing is sent when it is not.
\<close>

theorem identity_request_branch_iff:
  "(select_branch b = Inr IdentityRequest) = (\<exists>t. b = [0xF0, 0x7E, t, 0x06, 0x01, 0xF7])
   \<and> sent (snd (on_midi_message d [0xF0, 0x7E, t', 0x06, 0x01, 0xF7]))
     = (if out_port_open d
        then sent d @ [[0xF0, 0x7E, 0x7F, 0x06, 0x02, 0x7D,
                        0x01, 0x01, 0x01, 0x01, 0x01, 0x01, 0x01, 0x01, 0xF7]]
        else sent d)"
proof
  show "(select_branch b = Inr IdentityRequest) = (\<exists>t. b = [0xF0, 0x7E, t, 0x06, 0x01, 0xF7])"
  proof
    assume "select_branch b = Inr IdentityRequest"
    then have l: "length b = 6"
      and "b ! 0 = 0xF0" "b ! 1 = 0x7E" "b ! 3 = 0x06" "b ! 4 = 0x01" "b ! 5 = 0xF7"
      by (auto simp: select_branch_def Let_def device_consts split: if_splits)
    with length_six_nth [OF l] show "\<exists>t. b = [0xF0, 0x7E, t, 0x06, 0x01, 0xF7]"
      by metis
  next
    assume "\<exists>t. b = [0xF0, 0x7E, t, 0x06, 0x01, 0xF7]"
    then show "select_branch b = Inr IdentityRequest"
      by (auto simp: select_branch_def Let_def device_consts)
  qed
next
  show "sent (snd (on_midi_message d [0xF0, 0x7E, t', 0x06, 0x01, 0xF7]))
     = (if out_port_open d
        then sent d @ [[0xF0, 0x7E, 0x7F, 0x06, 0x02, 0x7D,
                        0x01, 0x01, 0x01, 0x01, 0x01, 0x01, 0x01, 0x01, 0xF7]]
        else sent d)"
    by (simp add: on_midi_message_def select_branch_def handle_identity_request_def
        identity_reply_def send_midi_message_def Let_def device_consts split: option.splits)
qed

text \<open>
  C1 as stated fails: the six-byte frame \<open>F0 7E 00 06 01 F7\<close>, whose third byte is not
  \<open>7F\<close>, takes the Identity Request branch, and a device whose output port is open
  answers it with the Identity Reply.
\<close>

theorem identity_request_third_byte_counterexample:
  "select_branch [0xF0, 0x7E, 0x00, 0x06, 0x01, 0xF7] = Inr IdentityRequest
   \<and> sent (snd (on_midi_message
        \<lparr>out_port_open = True, send_fault = None, sent = [], log_fault = False, log_file = []\<rparr>
        [0xF0, 0x7E, 0x00, 0x06, 0x01, 0xF7]))
     = [[0xF0, 0x7E, 0x7F, 0x06, 0x02, 0x7D, 0x01, 0x01, 0x01, 0x01, 0x01, 0x01, 0x01, 0x01, 0xF7]]"
  by (simp add: on_midi_message_def select_branch_def handle_identity_request_def
      identity_reply_def send_midi_message_def Let_def device_consts)

text \<open>
  C2: the one-byte message \<open>[0x90]\<close> of the claim takes the Note On branch, whose
  \<open>print\<close> reads \<open>message_bytes[1]\<close>: \<open>on_midi_message\<close> raises \<open>IndexError\<close> instead of
  treating the message as unrecognized.
\<close>

theorem short_note_on_raises: "fst (on_midi_message d [0x90]) = Inl IndexError"
  by (simp add: on_midi_message_def select_branch_def print_data_bytes_def Let_def device_consts)

text \<open>
  C3, as the code has it. \<open>send_midi_message\<close> sends only when the output port is open.
  For every frame that takes the Identity Request branch (\<open>F0 7E t 06 01 F7\<close>, any
  \<open>t\<close>) and every state of the device: with the output port open, exactly one message
  is handed to it, the fifteen bytes \<open>F0 7E 7F 06 02 7D 01 01 01 01 01 01 01 01 F7\<close>,
  whatever was sent before; with the output port not open, nothing is sent. The log is
  left alone in both cases.
\<close>

theorem identity_request_reply:
  assumes "select_branch b = Inr IdentityRequest"
  shows "(out_port_open d \<longrightarrow>
            sent (snd (on_midi_message d b))
              = sent d @ [[0xF0, 0x7E, 0x7F, 0x06, 0x02, 0x7D,
                           0x01, 0x01, 0x01, 0x01, 0x01, 0x01, 0x01, 0x01, 0xF7]])
         \<and> (\<not> out_port_open d \<longrightarrow> sent (snd (on_midi_message d b)) = sent d)
         \<and> log_file (snd (on_midi_message d b)) = log_file d"
  using assms
  by (simp add: on_midi_message_def handle_identity_request_def identity_reply_def
      send_midi_message_def Let_def device_consts split: option.splits)

theorem identity_request_reply_witness:
  "select_branch [0xF0, 0x7E, 0x7F, 0x06, 0x01, 0xF7] = Inr IdentityRequest
   \<and> out_port_open \<lparr>out_port_open = True, send_fault = None,
       sent = [[0xF0, 0x7E, 0x7F, 0x06, 0x02, 0x7D, 1, 1, 1, 1, 1, 1, 1, 1, 0xF7]],
       log_fault = False, log_file = []\<rparr>
   \<and> sent (snd (on_midi_message
        \<lparr>out_port_open = True, send_fault = None,
         sent = [[0xF0, 0x7E, 0x7F, 0x06, 0x02, 0x7D, 1, 1, 1, 1, 1, 1, 1, 1, 0xF7]],
         log_fault = False, log_file = []\<rparr>
        [0xF0, 0x7E, 0x7F, 0x06, 0x01, 0xF7]))
     = [[0xF0, 0x7E, 0x7F, 0x06, 0x02, 0x7D, 1, 1, 1, 1, 1, 1, 1, 1, 0xF7],
        [0xF0, 0x7E, 0x7F, 0x06, 0x02, 0x7D, 1, 1, 1, 1, 1, 1, 1, 1, 0xF7]]
   \<and> \<not> out_port_open \<lparr>out_port_open = False, send_fault = None,
       sent = [[0x90, 0x3C, 0x7F]], log_fault = False, log_file = []\<rparr>
   \<and> sent (snd (on_midi_message
        \<lparr>out_port_open = False, send_fault = None,
         sent = [[0x90, 0x3C, 0x7F]], log_fault = False, log_file = []\<rparr>
        [0xF0, 0x7E, 0x7F, 0x06, 0x01, 0xF7]))
     = [[0x90, 0x3C, 0x7F]]"
proof -
  have h: "select_branch [0xF0, 0x7E, 0x7F, 0x06, 0x01, 0xF7] = Inr IdentityRequest"
    by (simp add: select_branch_def Let_def device_consts)
  show ?thesis
    using h
      identity_request_reply [OF h, where d = "\<lparr>out_port_open = True, send_fault = None,
         sent = [[0xF0, 0x7E, 0x7F, 0x06, 0x02, 0x7D, 1, 1, 1, 1, 1, 1, 1, 1, 0xF7]],
         log_fault = False, log_file = []\<rparr>"]
      identity_request_reply [OF h, where d = "\<lparr>out_port_open = False, send_fault = None,
         sent = [[0x90, 0x3C, 0x7F]], log_fault = False, log_file = []\<rparr>"]
    by simp
qed

text \<open>
  C3 as stated fails: a device whose output port is not open receives the Identity
  Request \<open>F0 7E 7F 06 01 F7\<close> and sends nothing.
\<close>

theorem identity_request_closed_port_counterexample:
  "on_midi_message
     \<lparr>out_port_open = False, send_fault = None, sent = [], log_fault = False, log_file = []\<rparr>
     [0xF0, 0x7E, 0x7F, 0x06, 0x01, 0xF7]
   = (Inr (),
      \<lparr>out_port_open = False, send_fault = None, sent = [], log_fault = False, log_file = []\<rparr>)"
  by (simp add: on_midi_message_def select_branch_def handle_identity_request_def
      send_midi_message_def Let_def device_consts)

text \<open>
  C4, as the code has it. When the log write succeeds and the output port is open, the
  frame \<open>F0 7D 01 03 01 F7\<close> appends exactly one line to the log, holding
  \<open>TriggerAction: ID=1\<close> and the byte list \<open>[240, 125, 1, 3, 1, 247]\<close>, and hands
  exactly one message to the output port, the inbound frame itself.
\<close>

theorem trigger_action_log_and_echo:
  "out_port_open d \<Longrightarrow> \<not> log_fault d \<Longrightarrow>
   sent (snd (on_midi_message d [0xF0, 0x7D, 0x01, 0x03, 0x01, 0xF7]))
     = sent d @ [[0xF0, 0x7D, 0x01, 0x03, 0x01, 0xF7]]
   \<and> log_file (snd (on_midi_message d [0xF0, 0x7D, 0x01, 0x03, 0x01, 0xF7]))
     = log_file d @ ''TriggerAction: ID=1'' @ '', FullMsg='' @ ''[240, 125, 1, 3, 1, 247]''
         @ [CHR 0x0A]"
  by (simp add: on_midi_message_def select_branch_def handle_custom_sysex_def
      handle_trigger_action_def log_content_def str_int_1 repr_trigger_frame
      send_midi_message_def Let_def device_consts split: option.splits exn.splits)

theorem trigger_action_log_and_echo_witness:
  "out_port_open \<lparr>out_port_open = True, send_fault = None, sent = [], log_fault = False, log_file = []\<rparr>
   \<and> \<not> log_fault \<lparr>out_port_open = True, send_fault = None, sent = [], log_fault = False, log_file = []\<rparr>
   \<and> sent (snd (on_midi_message
        \<lparr>out_port_open = True, send_fault = None, sent = [], log_fault = False, log_file = []\<rparr>
        [0xF0, 0x7D, 0x01, 0x03, 0x01, 0xF7]))
     = [[0xF0, 0x7D, 0x01, 0x03, 0x01, 0xF7]]
   \<and> log_file (snd (on_midi_message
        \<lparr>out_port_open = True, send_fault = None, sent = [], log_fault = False, log_file = []\<rparr>
        [0xF0, 0x7D, 0x01, 0x03, 0x01, 0xF7]))
     = ''TriggerAction: ID=1, FullMsg=[240, 125, 1, 3, 1, 247]'' @ [CHR 0x0A]"
  using trigger_action_log_and_echo [of "\<lparr>out_port_open = True, send_fault = None, sent = [], log_fault = False, log_file = []\<rparr>"]
  by simp

text \<open>
  C4 as stated fails: a device whose output port is not open logs the action and sends
  no echo.
\<close>

theorem trigger_action_closed_port_counterexample:
  "on_midi_message
     \<lparr>out_port_open = False, send_fault = None, sent = [], log_fault = False, log_file = []\<rparr>
     [0xF0, 0x7D, 0x01, 0x03, 0x01, 0xF7]
   = (Inr (),
      \<lparr>out_port_open = False, send_fault = None, sent = [], log_fault = False,
       log_file = ''TriggerAction: ID=1, FullMsg=[240, 125, 1, 3, 1, 247]'' @ [CHR 0x0A]\<rparr>)"
  by (simp add: on_midi_message_def select_branch_def handle_custom_sysex_def
      handle_trigger_action_def log_content_def str_int_1 repr_trigger_frame
      send_midi_message_def Let_def device_consts)

text \<open>
  C5. A Trigger Action frame \<open>F0 7D 01 03 <action_id> ... F7\<close> whose action id is not
  \<open>0x01\<close> returns normally with the device unchanged: nothing is sent and nothing is
  appended to the log.
\<close>

theorem unknown_action_silent:
  "action_id \<noteq> 0x01 \<Longrightarrow>
   on_midi_message d ([0xF0, 0x7D, 0x01, 0x03, action_id] @ payload @ [0xF7]) = (Inr (), d)"
  by (simp add: on_midi_message_def select_branch_def handle_custom_sysex_def
      handle_trigger_action_def Let_def device_consts)

theorem unknown_action_silent_witness:
  "(0xFF::int) \<noteq> 0x01
   \<and> on_midi_message
        \<lparr>out_port_open = True, send_fault = None, sent = [], log_fault = False, log_file = []\<rparr>
        [0xF0, 0x7D, 0x01, 0x03, 0xFF, 0xF7]
     = (Inr (),
        \<lparr>out_port_open = True, send_fault = None, sent = [], log_fault = False, log_file = []\<rparr>)"
  using unknown_action_silent [of "0xFF" "\<lparr>out_port_open = True, send_fault = None, sent = [], log_fault = False, log_file = []\<rparr>" "[]"]
  by simp

text \<open>
  C6. A custom SysEx frame \<open>F0 7D <device_id> <command_id> ... F7\<close> whose device id is
  not \<open>0x01\<close> returns normally with the device unchanged, whatever the command id and
  the payload: no reply is sent (and nothing is logged).
\<close>

theorem other_device_id_silent:
  "device_id \<noteq> 0x01 \<Longrightarrow>
   on_midi_message d ([0xF0, 0x7D, device_id, command_id] @ payload @ [0xF7]) = (Inr (), d)"
  by (simp add: on_midi_message_def select_branch_def Let_def device_consts)

theorem other_device_id_silent_witness:
  "(0x02::int) \<noteq> 0x01
   \<and> on_midi_message
        \<lparr>out_port_open = True, send_fault = None, sent = [], log_fault = False, log_file = []\<rparr>
        [0xF0, 0x7D, 0x02, 0x03, 0x01, 0xF7]
     = (Inr (),
        \<lparr>out_port_open = True, send_fault = None, sent = [], log_fault = False, log_file = []\<rparr>)"
  using other_device_id_silent [of "0x02" "\<lparr>out_port_open = True, send_fault = None, sent = [], log_fault = False, log_file = []\<rparr>" "0x03" "[0x01]"]
  by simp

text \<open>
  C9, as the code has it. In the handler of Trigger Action \<open>0x01\<close> the reply follows the
  log write inside one \<open>try\<close> block. A failing log write ends the handler with nothing
  sent and nothing logged. A log write that succeeds stays in the log whatever the send
  does afterwards (a closed port, a send that raises): nothing rolls it back. With the
  port open the frame is then handed to the output port.
\<close>

theorem trigger_action_log_then_send:
  "(log_fault d \<longrightarrow> handle_trigger_action d ACTION_ID_LOG m = (Inr (), d))
   \<and> (\<not> log_fault d \<longrightarrow>
        log_file (snd (handle_trigger_action d ACTION_ID_LOG m))
          = log_file d @ log_content ACTION_ID_LOG m)
   \<and> (\<not> log_fault d \<and> out_port_open d \<longrightarrow>
        sent (snd (handle_trigger_action d ACTION_ID_LOG m)) = sent d @ [m])"
  by (simp add: handle_trigger_action_def send_midi_message_def Let_def
      split: option.splits exn.splits)

theorem trigger_action_log_then_send_witness:
  "log_fault \<lparr>out_port_open = True, send_fault = None, sent = [], log_fault = True, log_file = []\<rparr>
   \<and> handle_trigger_action
        \<lparr>out_port_open = True, send_fault = None, sent = [], log_fault = True, log_file = []\<rparr>
        ACTION_ID_LOG [0xF0, 0x7D, 0x01, 0x03, 0x01, 0xF7]
     = (Inr (), \<lparr>out_port_open = True, send_fault = None, sent = [], log_fault = True, log_file = []\<rparr>)
   \<and> \<not> log_fault \<lparr>out_port_open = True, send_fault = Some RtMidiError, sent = [], log_fault = False, log_file = []\<rparr>
   \<and> out_port_open \<lparr>out_port_open = True, send_fault = Some RtMidiError, sent = [], log_fault = False, log_file = []\<rparr>
   \<and> fst (handle_trigger_action
        \<lparr>out_port_open = True, send_fault = Some RtMidiError, sent = [], log_fault = False, log_file = []\<rparr>
        ACTION_ID_LOG [0xF0, 0x7D, 0x01, 0x03, 0x01, 0xF7]) = Inl RtMidiError
   \<and> log_file (snd (handle_trigger_action
        \<lparr>out_port_open = True, send_fault = Some RtMidiError, sent = [], log_fault = False, log_file = []\<rparr>
        ACTION_ID_LOG [0xF0, 0x7D, 0x01, 0x03, 0x01, 0xF7]))
     = ''TriggerAction: ID=1, FullMsg=[240, 125, 1, 3, 1, 247]'' @ [CHR 0x0A]
   \<and> sent (snd (handle_trigger_action
        \<lparr>out_port_open = True, send_fault = Some RtMidiError, sent = [], log_fault = False, log_file = []\<rparr>
        ACTION_ID_LOG [0xF0, 0x7D, 0x01, 0x03, 0x01, 0xF7]))
     = [[0xF0, 0x7D, 0x01, 0x03, 0x01, 0xF7]]"
  using trigger_action_log_then_send [of "\<lparr>out_port_open = True, send_fault = None, sent = [], log_fault = True, log_file = []\<rparr>" "[0xF0, 0x7D, 0x01, 0x03, 0x01, 0xF7]"]
    trigger_action_log_then_send [of "\<lparr>out_port_open = True, send_fault = Some RtMidiError, sent = [], log_fault = False, log_file = []\<rparr>" "[0xF0, 0x7D, 0x01, 0x03, 0x01, 0xF7]"]
  by (simp add: log_content_def str_int_1 repr_trigger_frame ACTION_ID_LOG_def
      handle_trigger_action_def send_midi_message_def)

text \<open>
  C9 as stated fails: with the output port open and a log write that raises
  \<open>IOError\<close>, the frame \<open>F0 7D 01 03 01 F7\<close> gets no reply.
\<close>

theorem log_failure_suppresses_reply_counterexample:
  "on_midi_message
     \<lparr>out_port_open = True, send_fault = None, sent = [], log_fault = True, log_file = []\<rparr>
     [0xF0, 0x7D, 0x01, 0x03, 0x01, 0xF7]
   = (Inr (),
      \<lparr>out_port_open = True, send_fault = None, sent = [], log_fault = True, log_file = []\<rparr>)"
  by (simp add: on_midi_message_def select_branch_def handle_custom_sysex_def
      handle_trigger_action_def Let_def device_consts)

section \<open>Properties of the client\<close>

lemma connect_out_no_match:
  "\<forall>n\<in>set ports. \<not> str_in sub n \<Longrightarrow> connect_out t sub i ports c = (False, c)"
  by (induction ports arbitrary: i) simp_all

lemma connect_in_no_match:
  "\<forall>n\<in>set ports. \<not> str_in sub n \<Longrightarrow> connect_in t sub i ports c = (False, c)"
  by (induction ports arbitrary: i) simp_all

lemma connect_out_client_port_name:
  "client_port_name (snd (connect_out t sub i ports c)) = client_port_name c"
  by (induction ports arbitrary: i c) (simp_all add: call_def Let_def)

lemma outbound_leg_client_port_name:
  "client_port_name (snd (outbound_leg t sub c)) = client_port_name c"
  by (simp add: outbound_leg_def connect_out_client_port_name call_def)

text \<open>
  C7. When no outbound port name contains the device-inbound substring,
  \<open>connect_to_device\<close> returns \<open>False\<close>, and all it has done is to store the two
  substrings and to enumerate the outbound ports: the trace gains the single call
  \<open>midi_out.get_ports()\<close>, so no inbound port is enumerated, closed or opened, and the
  inbox is untouched.
\<close>

theorem no_outbound_match_fails_fast:
  "\<forall>n\<in>set (get_ports t MidiOut). \<not> str_in sub_in n \<Longrightarrow>
   connect_to_device t sub_in sub_out c =
     (False,
      c\<lparr>target_device_in_port_name := Some sub_in,
        target_device_out_port_name := Some sub_out,
        calls := calls c @ [(MidiOut, GetPorts)]\<rparr>)"
  by (simp add: connect_to_device_def outbound_leg_def connect_out_no_match call_def)

theorem no_outbound_match_fails_fast_witness:
  "\<not> str_in ''MockDevice MIDI In'' ''Other Port''
   \<and> connect_to_device
        \<lparr>get_ports = (\<lambda>e. case e of MidiOut \<Rightarrow> [''Other Port''] | MidiIn \<Rightarrow> [''MockDevice MIDI Out'']),
         open_raises = (\<lambda>h m. False), is_port_open = (\<lambda>h e. True)\<rparr>
        ''MockDevice MIDI In'' ''MockDevice MIDI Out''
        \<lparr>client_port_name = ''Client'', target_device_in_port_name = None,
         target_device_out_port_name = None, received_messages = [], calls = []\<rparr>
     = (False,
        \<lparr>client_port_name = ''Client'', target_device_in_port_name = Some ''MockDevice MIDI In'',
         target_device_out_port_name = Some ''MockDevice MIDI Out'', received_messages = [],
         calls = [(MidiOut, GetPorts)]\<rparr>)"
  using no_outbound_match_fails_fast [where t =
      "\<lparr>get_ports = (\<lambda>e. case e of MidiOut \<Rightarrow> [''Other Port''] | MidiIn \<Rightarrow> [''MockDevice MIDI Out'']),
         open_raises = (\<lambda>h m. False), is_port_open = (\<lambda>h e. True)\<rparr>"
      and sub_in = "''MockDevice MIDI In''" and sub_out = "''MockDevice MIDI Out''"
      and c = "\<lparr>client_port_name = ''Client'', target_device_in_port_name = None,
         target_device_out_port_name = None, received_messages = [], calls = []\<rparr>"]
  by simp

text \<open>
  C8, as the code has it. When the outbound leg succeeds and no inbound port name
  contains the device-outbound substring, \<open>connect_to_device\<close> returns \<open>False\<close>, and
  after the outbound leg it enumerates the inbound ports and then attempts to open the
  client's own virtual ports again: it calls \<open>open_virtual_port\<close> of \<open><name> In\<close> on
  \<open>midi_in\<close> and of \<open><name> Out\<close> on \<open>midi_out\<close>, whatever the library answers, and
  sets the callback again exactly when \<open>midi_in\<close> then reports an open port. No
  inbound port is closed or opened by index. Nothing here says that the two virtual
  ports are open afterwards: that is the library's answer.
\<close>

theorem inbound_failure_reopens_virtual_ports:
  assumes "fst (outbound_leg t sub_in
             (c\<lparr>target_device_in_port_name := Some sub_in,
                target_device_out_port_name := Some sub_out\<rparr>))"
    and "\<forall>n\<in>set (get_ports t MidiIn). \<not> str_in sub_out n"
  shows "(let c1 = snd (outbound_leg t sub_in
                     (c\<lparr>target_device_in_port_name := Some sub_in,
                        target_device_out_port_name := Some sub_out\<rparr>));
              reopen = [(MidiIn, GetPorts),
                        (MidiIn, OpenVirtualPort (client_port_name c @ '' In'')),
                        (MidiOut, OpenVirtualPort (client_port_name c @ '' Out''))]
          in fst (connect_to_device t sub_in sub_out c) = False
             \<and> calls (snd (connect_to_device t sub_in sub_out c))
               = calls c1 @ reopen @ [(MidiIn, IsPortOpen)]
                   @ (if is_port_open t (calls c1 @ reopen) MidiIn
                      then [(MidiIn, SetCallback)] else []))"
proof -
  let ?c0 = "c\<lparr>target_device_in_port_name := Some sub_in,
               target_device_out_port_name := Some sub_out\<rparr>"
  obtain c1 where out: "outbound_leg t sub_in ?c0 = (True, c1)"
    using assms(1) by (cases "outbound_leg t sub_in ?c0") simp
  have name: "client_port_name c1 = client_port_name c"
    using outbound_leg_client_port_name [of t sub_in ?c0] out by simp
  have inb: "inbound_leg t sub_out c1 = (False, call c1 (MidiIn, GetPorts))"
    by (simp add: inbound_leg_def connect_in_no_match [OF assms(2)])
  show ?thesis
    by (simp add: connect_to_device_def out inb open_client_ports_def call_def Let_def name)
qed

theorem inbound_failure_reopens_virtual_ports_witness:
  "fst (outbound_leg
          \<lparr>get_ports = (\<lambda>e. case e of MidiOut \<Rightarrow> [''MockDevice MIDI In''] | MidiIn \<Rightarrow> [''Some Other Input'']),
           open_raises = (\<lambda>h m. False), is_port_open = (\<lambda>h e. True)\<rparr>
          ''MockDevice MIDI In''
          \<lparr>client_port_name = ''ConnectFailClient'',
           target_device_in_port_name = Some ''MockDevice MIDI In'',
           target_device_out_port_name = Some ''NonExistentDeviceOutput'',
           received_messages = [], calls = []\<rparr>)
   \<and> \<not> str_in ''NonExistentDeviceOutput'' ''Some Other Input''
   \<and> fst (connect_to_device
          \<lparr>get_ports = (\<lambda>e. case e of MidiOut \<Rightarrow> [''MockDevice MIDI In''] | MidiIn \<Rightarrow> [''Some Other Input'']),
           open_raises = (\<lambda>h m. False), is_port_open = (\<lambda>h e. True)\<rparr>
          ''MockDevice MIDI In'' ''NonExistentDeviceOutput''
          \<lparr>client_port_name = ''ConnectFailClient'', target_device_in_port_name = None,
           target_device_out_port_name = None, received_messages = [], calls = []\<rparr>) = False
   \<and> calls (snd (connect_to_device
          \<lparr>get_ports = (\<lambda>e. case e of MidiOut \<Rightarrow> [''MockDevice MIDI In''] | MidiIn \<Rightarrow> [''Some Other Input'']),
           open_raises = (\<lambda>h m. False), is_port_open = (\<lambda>h e. True)\<rparr>
          ''MockDevice MIDI In'' ''NonExistentDeviceOutput''
          \<lparr>client_port_name = ''ConnectFailClient'', target_device_in_port_name = None,
           target_device_out_port_name = None, received_messages = [], calls = []\<rparr>))
     = [(MidiOut, GetPorts), (MidiOut, ClosePort), (MidiOut, OpenPort 0),
        (MidiIn, GetPorts),
        (MidiIn, OpenVirtualPort ''ConnectFailClient In''),
        (MidiOut, OpenVirtualPort ''ConnectFailClient Out''),
        (MidiIn, IsPortOpen), (MidiIn, SetCallback)]"
  using inbound_failure_reopens_virtual_ports [where t =
      "\<lparr>get_ports = (\<lambda>e. case e of MidiOut \<Rightarrow> [''MockDevice MIDI In''] | MidiIn \<Rightarrow> [''Some Other Input'']),
           open_raises = (\<lambda>h m. False), is_port_open = (\<lambda>h e. True)\<rparr>"
      and sub_in = "''MockDevice MIDI In''"
      and c = "\<lparr>client_port_name = ''ConnectFailClient'', target_device_in_port_name = None,
           target_device_out_port_name = None, received_messages = [], calls = []\<rparr>"
      and sub_out = "''NonExistentDeviceOutput''"]
  by (simp add: outbound_leg_def call_def Let_def)

text \<open>
  C8 as stated fails: on a platform whose library refuses \<open>open_virtual_port\<close> (the
  call raises, and \<open>midi_in\<close> has no open port), the outbound leg binds port 0 and the
  inbound leg finds no match; \<open>connect_to_device\<close> returns \<open>False\<close> after two refused
  re-opens, sets no callback, and \<open>midi_in\<close> is still not open: the client's endpoints
  are not advertised again and it cannot receive.
\<close>

theorem refused_reopen_counterexample:
  "connect_to_device
     \<lparr>get_ports = (\<lambda>e. case e of MidiOut \<Rightarrow> [''MockDevice MIDI In'']
                               | MidiIn \<Rightarrow> [''Some Other Input'']),
      open_raises = (\<lambda>h m. case snd m of OpenVirtualPort n \<Rightarrow> True | _ \<Rightarrow> False),
      is_port_open = (\<lambda>h e. e = MidiOut)\<rparr>
     ''MockDevice MIDI In'' ''NonExistentDeviceOutput''
     \<lparr>client_port_name = ''ConnectFailClient'', target_device_in_port_name = None,
      target_device_out_port_name = None, received_messages = [], calls = []\<rparr>
   = (False,
      \<lparr>client_port_name = ''ConnectFailClient'',
       target_device_in_port_name = Some ''MockDevice MIDI In'',
       target_device_out_port_name = Some ''NonExistentDeviceOutput'',
       received_messages = [],
       calls = [(MidiOut, GetPorts), (MidiOut, ClosePort), (MidiOut, OpenPort 0),
                (MidiIn, GetPorts),
                (MidiIn, OpenVirtualPort ''ConnectFailClient In''),
                (MidiOut, OpenVirtualPort ''ConnectFailClient Out''),
                (MidiIn, IsPortOpen)]\<rparr>)
   \<and> open_raises
        \<lparr>get_ports = (\<lambda>e. case e of MidiOut \<Rightarrow> [''MockDevice MIDI In'']
                                  | MidiIn \<Rightarrow> [''Some Other Input'']),
         open_raises = (\<lambda>h m. case snd m of OpenVirtualPort n \<Rightarrow> True | _ \<Rightarrow> False),
         is_port_open = (\<lambda>h e. e = MidiOut)\<rparr>
        [(MidiOut, GetPorts), (MidiOut, ClosePort), (MidiOut, OpenPort 0), (MidiIn, GetPorts)]
        (MidiIn, OpenVirtualPort ''ConnectFailClient In'')
   \<and> open_raises
        \<lparr>get_ports = (\<lambda>e. case e of MidiOut \<Rightarrow> [''MockDevice MIDI In'']
                                  | MidiIn \<Rightarrow> [''Some Other Input'']),
         open_raises = (\<lambda>h m. case snd m of OpenVirtualPort n \<Rightarrow> True | _ \<Rightarrow> False),
         is_port_open = (\<lambda>h e. e = MidiOut)\<rparr>
        [(MidiOut, GetPorts), (MidiOut, ClosePort), (MidiOut, OpenPort 0), (MidiIn, GetPorts),
         (MidiIn, OpenVirtualPort ''ConnectFailClient In'')]
        (MidiOut, OpenVirtualPort ''ConnectFailClient Out'')
   \<and> \<not> is_port_open
        \<lparr>get_ports = (\<lambda>e. case e of MidiOut \<Rightarrow> [''MockDevice MIDI In'']
                                  | MidiIn \<Rightarrow> [''Some Other Input'']),
         open_raises = (\<lambda>h m. case snd m of OpenVirtualPort n \<Rightarrow> True | _ \<Rightarrow> False),
         is_port_open = (\<lambda>h e. e = MidiOut)\<rparr>
        [(MidiOut, GetPorts), (MidiOut, ClosePort), (MidiOut, OpenPort 0), (MidiIn, GetPorts),
         (MidiIn, OpenVirtualPort ''ConnectFailClient In''),
         (MidiOut, OpenVirtualPort ''ConnectFailClient Out''),
         (MidiIn, IsPortOpen)]
        MidiIn"
  by (simp add: connect_to_device_def outbound_leg_def inbound_leg_def open_client_ports_def
      call_def Let_def)

text \<open>
  C10, as the code has it. With a timeout of zero or less, and a wall clock that is not
  set back between the reading of \<open>start_time\<close> and the first test of the loop,
  \<open>pop_received_message\<close> returns \<open>None\<close> and leaves the client, its inbox included, as
  it was, whatever the inbox holds: the first test of the loop already fails, and the
  inbox is read only inside the loop.
\<close>

theorem pop_nonpositive_timeout:
  "timeout_sec \<le> 0 \<Longrightarrow> clock 0 \<le> clock 1 \<Longrightarrow>
   pop_received_message clock arrivals timeout_sec c = Some (None, c)"
  by (simp add: pop_received_message_def pop_loop.simps)

theorem pop_nonpositive_timeout_witness:
  "(0::real) \<le> 0 \<and> (100::real) \<le> 100.5
   \<and> pop_received_message (\<lambda>k. 100 + real k / 2) (\<lambda>k. []) 0
        \<lparr>client_port_name = ''Client'', target_device_in_port_name = None,
         target_device_out_port_name = None, received_messages = [[0xB0, 0x07, 0x7F]],
         calls = []\<rparr>
     = Some (None,
        \<lparr>client_port_name = ''Client'', target_device_in_port_name = None,
         target_device_out_port_name = None, received_messages = [[0xB0, 0x07, 0x7F]],
         calls = []\<rparr>)"
  using pop_nonpositive_timeout [where timeout_sec = 0 and clock = "\<lambda>k. 100 + real k / 2"
      and arrivals = "\<lambda>k. []" and c =
      "\<lparr>client_port_name = ''Client'', target_device_in_port_name = None,
         target_device_out_port_name = None, received_messages = [[0xB0, 0x07, 0x7F]],
         calls = []\<rparr>"]
  by simp

text \<open>
  C10 as stated fails: the wall clock is set back by one second between the reading of
  \<open>start_time\<close> and the first test of the loop, so the difference is \<open>-1 < 0\<close>, the loop
  is entered with a timeout of zero, and the buffered frame is removed and returned.
\<close>

theorem pop_clock_set_back_counterexample:
  "pop_received_message (\<lambda>k. if k = 0 then 100 else 99) (\<lambda>k. []) 0
     \<lparr>client_port_name = ''Client'', target_device_in_port_name = None,
      target_device_out_port_name = None, received_messages = [[0xB0, 0x07, 0x7F]],
      calls = []\<rparr>
   = Some (Some [0xB0, 0x07, 0x7F],
      \<lparr>client_port_name = ''Client'', target_device_in_port_name = None,
       target_device_out_port_name = None, received_messages = [],
       calls = []\<rparr>)"
  by (simp add: pop_received_message_def pop_loop.simps)

end
